theory Spec2Isabelle
  imports Main "HOL-Library.Sublist"
begin

section \<open>The platform seen by \<^verbatim>\<open>scripts/launcher.c\<close>\<close>

text \<open>
  The launcher is one function, \<^verbatim>\<open>main\<close>, made of calls into the C library and
  dyld. What those calls answer depends on the machine the program runs on, so the
  machine is a parameter of the model: the path dyld recorded for the running image, the
  answer of path normalisation, the files that exist, the verdict of the kernel on a
  process replacement, and the text of each error number. Paths are C strings, modelled
  as \<open>string\<close>; no limit on their length is assumed beyond the sizes the source itself
  writes down.
\<close>

type_synonym path = string
type_synonym errno = int

record os =
  image_path :: path
  resolve :: "path \<Rightarrow> path option"
  files :: "path set"
  exec_failure :: "path \<Rightarrow> string list \<Rightarrow> errno option"
  strerror :: "errno \<Rightarrow> string"

text \<open>
  \<^verbatim>\<open>_NSGetExecutablePath(buf, &size)\<close> copies the path of the main executable into
  \<open>buf\<close> and returns 0; it returns -1 when the buffer, terminator included, is too
  small. \<open>None\<close> is the non-zero return.
\<close>

definition NSGetExecutablePath :: "os \<Rightarrow> nat \<Rightarrow> path option" where
  "NSGetExecutablePath os bufsize =
     (if length (image_path os) + 1 \<le> bufsize then Some (image_path os) else None)"

text \<open>
  \<^verbatim>\<open>realpath(p, NULL)\<close> returns a freshly allocated string holding the canonical
  absolute path, or \<open>NULL\<close> (here \<open>None\<close>) when the path does not resolve.
\<close>

definition realpath :: "os \<Rightarrow> path \<Rightarrow> path option" where
  "realpath os p = resolve os p"

text \<open>
  \<^verbatim>\<open>dirname\<close> as POSIX describes it: trailing slashes are dropped, then the last
  component, then the slashes before it; a path without a slash has parent \<open>.\<close>, a
  path of slashes only has parent \<open>/\<close>.
\<close>

definition rstrip :: "(char \<Rightarrow> bool) \<Rightarrow> string \<Rightarrow> string" where
  "rstrip P s = rev (dropWhile P (rev s))"

definition is_slash :: "char \<Rightarrow> bool" where
  "is_slash c = (c = CHR ''/'')"

definition not_slash :: "char \<Rightarrow> bool" where
  "not_slash c = (c \<noteq> CHR ''/'')"

definition dirname :: "path \<Rightarrow> path" where
  "dirname p =
     (let a = rstrip is_slash p in
      if a = [] then (if p = [] then ''.'' else ''/'')
      else
        let b = rstrip not_slash a in
        if b = [] then ''.''
        else
          let c = rstrip is_slash b in
          if c = [] then ''/'' else c)"

text \<open>
  \<^verbatim>\<open>snprintf(buf, size, "%s/launcher.sh", dir)\<close> stores at most \<open>size - 1\<close> bytes of
  the formatted text and then the terminator; the C string left in the buffer is the
  prefix of that length.
\<close>

definition snprintf :: "nat \<Rightarrow> string \<Rightarrow> string" where
  "snprintf bufsize s = take (bufsize - 1) s"

text \<open>
  \<^verbatim>\<open>execl(path, arg0, ..., NULL)\<close> returns only when the replacement failed, with
  \<open>errno\<close> set; \<open>None\<close> is the call that does not return.
\<close>

definition execl :: "os \<Rightarrow> path \<Rightarrow> string list \<Rightarrow> errno option" where
  "execl os p args = exec_failure os p args"

definition newline :: string where
  "newline = [CHR 0x0A]"

text \<open>\<^verbatim>\<open>perror(s)\<close> writes \<open>s\<close>, a colon and a space, the text of \<open>errno\<close>, a newline.\<close>

definition perror_text :: "os \<Rightarrow> string \<Rightarrow> errno \<Rightarrow> string" where
  "perror_text os s e = s @ '': '' @ strerror os e @ newline"

section \<open>The program\<close>

text \<open>
  A run is the sequence of library calls the program makes, each with its arguments and
  its answer, and the way the run ends: \<open>main\<close> returns a status, or the process image
  is replaced and \<open>main\<close> never returns.
\<close>

datatype call =
    Call_NSGetExecutablePath nat "path option"
  | Call_realpath path "path option"
  | Call_dirname path path
  | Call_snprintf nat string string
  | Call_free path
  | Call_execl path "string list" "errno option"
  | Call_fprintf_stderr string
  | Call_perror string errno

datatype outcome = Returned int | Replaced path "string list"

definition main :: "os \<Rightarrow> int \<Rightarrow> string list \<Rightarrow> call list \<times> outcome" where
  "main os argc argv =
     (let bufsize = 4096;
          got = NSGetExecutablePath os bufsize;
          t0 = [Call_NSGetExecutablePath bufsize got]
      in case got of
           None \<Rightarrow>
             (t0 @ [Call_fprintf_stderr (''Error: Could not determine executable path'' @ newline)],
              Returned 1)
         | Some exe_path \<Rightarrow>
             (let resolved = realpath os exe_path;
                  t1 = t0 @ [Call_realpath exe_path resolved]
              in case resolved of
                   None \<Rightarrow>
                     (t1 @ [Call_fprintf_stderr (''Error: Could not resolve path'' @ newline)],
                      Returned 1)
                 | Some real \<Rightarrow>
                     (let dir = dirname real;
                          fmt = dir @ ''/launcher.sh'';
                          script_path = snprintf 4096 fmt;
                          t2 = t1 @ [Call_dirname real dir,
                                     Call_snprintf 4096 fmt script_path,
                                     Call_free real];
                          rc = execl os ''/bin/bash'' [''bash'', script_path];
                          t3 = t2 @ [Call_execl ''/bin/bash'' [''bash'', script_path] rc]
                      in case rc of
                           None \<Rightarrow> (t3, Replaced ''/bin/bash'' [''bash'', script_path])
                         | Some e \<Rightarrow>
                             (t3 @ [Call_perror ''Failed to launch'' e], Returned 1))))"

section \<open>Observations on a run\<close>

definition trace :: "os \<Rightarrow> int \<Rightarrow> string list \<Rightarrow> call list" where
  "trace os argc argv = fst (main os argc argv)"

definition ending :: "os \<Rightarrow> int \<Rightarrow> string list \<Rightarrow> outcome" where
  "ending os argc argv = snd (main os argc argv)"

text \<open>What a call writes to standard error, and what a whole run wrote there.\<close>

fun written :: "os \<Rightarrow> call \<Rightarrow> string" where
  "written os (Call_fprintf_stderr s) = s"
| "written os (Call_perror s e) = perror_text os s e"
| "written os c = []"

definition stderr_of :: "os \<Rightarrow> call list \<Rightarrow> string" where
  "stderr_of os t = concat (map (written os) t)"

fun is_diagnostic :: "call \<Rightarrow> bool" where
  "is_diagnostic (Call_fprintf_stderr s) = True"
| "is_diagnostic (Call_perror s e) = True"
| "is_diagnostic c = False"

definition diagnostics :: "call list \<Rightarrow> call list" where
  "diagnostics t = filter is_diagnostic t"

text \<open>The process replacements the run asked for: program path and argument vector.\<close>

fun execl_calls :: "call list \<Rightarrow> (path \<times> string list) list" where
  "execl_calls [] = []"
| "execl_calls (Call_execl p args rc # t) = (p, args) # execl_calls t"
| "execl_calls (c # t) = execl_calls t"

fun is_execl :: "call \<Rightarrow> bool" where
  "is_execl (Call_execl p args rc) = True"
| "is_execl c = False"

text \<open>The calls made before the first process replacement is asked for.\<close>

definition before_execl :: "call list \<Rightarrow> call list" where
  "before_execl t = takeWhile (\<lambda>c. \<not> is_execl c) t"

text \<open>Path composition is the pair of calls \<^verbatim>\<open>dirname\<close> and \<^verbatim>\<open>snprintf\<close>.\<close>

fun is_composition :: "call \<Rightarrow> bool" where
  "is_composition (Call_dirname p d) = True"
| "is_composition (Call_snprintf n f s) = True"
| "is_composition c = False"

text \<open>A call that reports failure to the program, and a replacement that took place.\<close>

fun failed :: "call \<Rightarrow> bool" where
  "failed (Call_NSGetExecutablePath n None) = True"
| "failed (Call_realpath p None) = True"
| "failed (Call_execl p args (Some e)) = True"
| "failed c = False"

fun replaces :: "call \<Rightarrow> bool" where
  "replaces (Call_execl p args None) = True"
| "replaces c = False"

text \<open>The calls that follow the first failed call, and the first replacement.\<close>

definition after_failure :: "call list \<Rightarrow> call list" where
  "after_failure t = tl (dropWhile (\<lambda>c. \<not> failed c) t)"

definition after_replacement :: "call list \<Rightarrow> call list" where
  "after_replacement t = tl (dropWhile (\<lambda>c. \<not> replaces c) t)"

text \<open>
  The heap: \<^verbatim>\<open>realpath(p, NULL)\<close> allocates its answer when it succeeds, \<^verbatim>\<open>free\<close>
  releases it. \<open>heap_after\<close> replays a run on the list of live allocations and is
  \<open>None\<close> when something is released that is not live (a double release).
\<close>

fun allocs :: "call list \<Rightarrow> path list" where
  "allocs [] = []"
| "allocs (Call_realpath p (Some r) # t) = r # allocs t"
| "allocs (c # t) = allocs t"

fun frees :: "call list \<Rightarrow> path list" where
  "frees [] = []"
| "frees (Call_free r # t) = r # frees t"
| "frees (c # t) = frees t"

fun heap_after :: "path list \<Rightarrow> call list \<Rightarrow> path list option" where
  "heap_after h [] = Some h"
| "heap_after h (Call_realpath p (Some r) # t) = heap_after (r # h) t"
| "heap_after h (Call_free r # t) =
     (if r \<in> set h then heap_after (remove1 r h) t else None)"
| "heap_after h (c # t) = heap_after h t"

text \<open>
  A valid installation in the spec's words: the executable \<open>real\<close> is present and
  \<open>launcher.sh\<close> lies beside it. That the platform reports the path of the executable,
  that the path resolves, and what the kernel answers to the replacement are conditions
  of their own, written out wherever a statement needs them.
\<close>

definition valid_installation :: "os \<Rightarrow> path \<Rightarrow> bool" where
  "valid_installation os real \<longleftrightarrow>
     real \<in> files os \<and> dirname real @ ''/launcher.sh'' \<in> files os"

section \<open>Example machines\<close>

text \<open>
  On the example machines a program can be executed exactly when its file exists; what is
  passed to it as arguments plays no part in that.
\<close>

definition ENOENT :: errno where
  "ENOENT = 2"

definition machine :: "path \<Rightarrow> (path \<Rightarrow> path option) \<Rightarrow> path set \<Rightarrow> os" where
  "machine img res fs =
     \<lparr> image_path = img, resolve = res, files = fs,
       exec_failure = (\<lambda>p args. if p \<in> fs then None else Some ENOENT),
       strerror = (\<lambda>e. if e = ENOENT then ''No such file or directory''
                        else ''Unknown error'') \<rparr>"

definition bundle_exe :: path where
  "bundle_exe = ''/Apps/Foo.app/Contents/MacOS/Foo''"

definition bundle_script :: path where
  "bundle_script = ''/Apps/Foo.app/Contents/MacOS/launcher.sh''"

definition bundle_link :: path where
  "bundle_link = ''/usr/local/bin/foo''"

definition resolve_bundle :: "path \<Rightarrow> path option" where
  "resolve_bundle p = (if p = bundle_exe \<or> p = bundle_link then Some bundle_exe else None)"

text \<open>The bundle of the spec's scenario, complete.\<close>

definition os_bundle :: os where
  "os_bundle = machine bundle_exe resolve_bundle {bundle_exe, bundle_script, ''/bin/bash''}"

text \<open>The same bundle started through a symbolic link in another directory.\<close>

definition os_symlink :: os where
  "os_symlink = machine bundle_link resolve_bundle
     {bundle_exe, bundle_script, bundle_link, ''/bin/bash''}"

text \<open>The bundle without \<open>launcher.sh\<close>, and the bundle on a host without the shell.\<close>

definition os_no_script :: os where
  "os_no_script = machine bundle_exe resolve_bundle {bundle_exe, ''/bin/bash''}"

definition os_no_bash :: os where
  "os_no_bash = machine bundle_exe resolve_bundle {bundle_exe, bundle_script}"

text \<open>An image path that no longer resolves, and one of 4096 bytes.\<close>

definition os_unresolved :: os where
  "os_unresolved = machine ''/Volumes/Gone/Foo'' (\<lambda>p. None) {''/bin/bash''}"

definition long_image :: path where
  "long_image = CHR ''/'' # replicate 4095 (CHR ''a'')"

definition os_long_image :: os where
  "os_long_image = machine long_image (\<lambda>p. Some p) {long_image, ''/bin/bash''}"

text \<open>
  A complete installation sixteen directories deep: fifteen directories with names of 255
  bytes and one with a name of 250. The directory path has 4091 bytes, the executable
  path has 4095 and fits the buffer, the script path has 4103.
\<close>

definition deep_component :: string where
  "deep_component = CHR ''/'' # replicate 255 (CHR ''d'')"

definition deep_dir :: path where
  "deep_dir = concat (replicate 15 deep_component) @ CHR ''/'' # replicate 250 (CHR ''d'')"

definition deep_exe :: path where
  "deep_exe = deep_dir @ ''/Foo''"

definition os_deep :: os where
  "os_deep = machine deep_exe (\<lambda>p. if p = deep_exe then Some deep_exe else None)
     {deep_exe, deep_dir @ ''/launcher.sh'', ''/bin/bash''}"

section \<open>The four paths through \<open>main\<close>\<close>

lemma main_no_image_path:
  assumes "NSGetExecutablePath os 4096 = None"
  shows "main os argc argv =
    ([Call_NSGetExecutablePath 4096 None,
      Call_fprintf_stderr (''Error: Could not determine executable path'' @ newline)],
     Returned 1)"
  using assms by (simp add: main_def)

lemma main_unresolved:
  assumes "NSGetExecutablePath os 4096 = Some p" and "realpath os p = None"
  shows "main os argc argv =
    ([Call_NSGetExecutablePath 4096 (Some p), Call_realpath p None,
      Call_fprintf_stderr (''Error: Could not resolve path'' @ newline)],
     Returned 1)"
  using assms by (simp add: main_def)

lemma main_replaced:
  assumes "NSGetExecutablePath os 4096 = Some p" and "realpath os p = Some real"
    and "execl os ''/bin/bash'' [''bash'', snprintf 4096 (dirname real @ ''/launcher.sh'')] = None"
  shows "main os argc argv =
    ([Call_NSGetExecutablePath 4096 (Some p), Call_realpath p (Some real),
      Call_dirname real (dirname real),
      Call_snprintf 4096 (dirname real @ ''/launcher.sh'')
        (snprintf 4096 (dirname real @ ''/launcher.sh'')),
      Call_free real,
      Call_execl ''/bin/bash'' [''bash'', snprintf 4096 (dirname real @ ''/launcher.sh'')] None],
     Replaced ''/bin/bash'' [''bash'', snprintf 4096 (dirname real @ ''/launcher.sh'')])"
  using assms by (simp add: main_def Let_def)

lemma main_exec_failed:
  assumes "NSGetExecutablePath os 4096 = Some p" and "realpath os p = Some real"
    and "execl os ''/bin/bash'' [''bash'', snprintf 4096 (dirname real @ ''/launcher.sh'')] = Some e"
  shows "main os argc argv =
    ([Call_NSGetExecutablePath 4096 (Some p), Call_realpath p (Some real),
      Call_dirname real (dirname real),
      Call_snprintf 4096 (dirname real @ ''/launcher.sh'')
        (snprintf 4096 (dirname real @ ''/launcher.sh'')),
      Call_free real,
      Call_execl ''/bin/bash'' [''bash'', snprintf 4096 (dirname real @ ''/launcher.sh'')] (Some e),
      Call_perror ''Failed to launch'' e],
     Returned 1)"
  using assms by (simp add: main_def Let_def)

lemma main_cases [case_names no_image_path unresolved replaced exec_failed]:
  obtains
    "NSGetExecutablePath os 4096 = None"
  | p where "NSGetExecutablePath os 4096 = Some p" "realpath os p = None"
  | p real where "NSGetExecutablePath os 4096 = Some p" "realpath os p = Some real"
      "execl os ''/bin/bash'' [''bash'', snprintf 4096 (dirname real @ ''/launcher.sh'')] = None"
  | p real e where "NSGetExecutablePath os 4096 = Some p" "realpath os p = Some real"
      "execl os ''/bin/bash'' [''bash'', snprintf 4096 (dirname real @ ''/launcher.sh'')] = Some e"
proof (cases "NSGetExecutablePath os 4096")
  case None
  then show ?thesis using that(1) by simp
next
  case (Some p)
  note got = this
  show ?thesis
  proof (cases "realpath os p")
    case None
    then show ?thesis using got that(2) by simp
  next
    case (Some real)
    then show ?thesis
      using got that(3,4)
      by (cases "execl os ''/bin/bash'' [''bash'', snprintf 4096 (dirname real @ ''/launcher.sh'')]")
         auto
  qed
qed

text \<open>The calls of a run whose executable path resolved, up to the replacement call.\<close>

lemma trace_resolved:
  assumes "NSGetExecutablePath os 4096 = Some p" and "realpath os p = Some real"
  shows "\<exists>rest. trace os argc argv =
    [Call_NSGetExecutablePath 4096 (Some p), Call_realpath p (Some real),
     Call_dirname real (dirname real),
     Call_snprintf 4096 (dirname real @ ''/launcher.sh'')
       (snprintf 4096 (dirname real @ ''/launcher.sh'')),
     Call_free real,
     Call_execl ''/bin/bash'' [''bash'', snprintf 4096 (dirname real @ ''/launcher.sh'')]
       (execl os ''/bin/bash'' [''bash'', snprintf 4096 (dirname real @ ''/launcher.sh'')])]
    @ rest \<and> (rest = [] \<or> (\<exists>e. rest = [Call_perror ''Failed to launch'' e]))"
proof (cases "execl os ''/bin/bash'' [''bash'', snprintf 4096 (dirname real @ ''/launcher.sh'')]")
  case None
  from main_replaced[OF assms this, of argc argv] None show ?thesis
    by (simp add: trace_def)
next
  case (Some e)
  from main_exec_failed[OF assms this, of argc argv] Some show ?thesis
    by (simp add: trace_def)
qed

section \<open>Facts about \<open>dirname\<close> and \<open>snprintf\<close>\<close>

lemma rstrip_keep: "s \<noteq> [] \<Longrightarrow> \<not> P (last s) \<Longrightarrow> rstrip P s = s"
  by (cases "rev s") (auto simp: rstrip_def last_rev hd_rev dest: arg_cong[where f=rev])

lemma rstrip_append_all:
  "(\<And>x. x \<in> set f \<Longrightarrow> P x) \<Longrightarrow> rstrip P (d @ f) = rstrip P d"
  unfolding rstrip_def rev_append by (subst dropWhile_append2) auto

text \<open>The parent of a file in a directory other than the root is that directory.\<close>

lemma dirname_sibling:
  assumes "d \<noteq> []" "last d \<noteq> CHR ''/''" "f \<noteq> []" "CHR ''/'' \<notin> set f"
  shows "dirname (d @ CHR ''/'' # f) = d"
proof -
  let ?p = "d @ CHR ''/'' # f"
  have "last f \<in> set f" using assms by simp
  then have "last f \<noteq> CHR ''/''" using assms by metis
  then have lastp: "\<not> is_slash (last ?p)" using assms by (simp add: is_slash_def)
  have a: "rstrip is_slash ?p = ?p" by (rule rstrip_keep) (use lastp in auto)
  have "rstrip not_slash ?p = rstrip not_slash ((d @ ''/'') @ f)" by simp
  also have "\<dots> = rstrip not_slash (d @ ''/'')"
    by (rule rstrip_append_all) (use assms in \<open>auto simp: not_slash_def\<close>)
  also have "\<dots> = d @ ''/''" by (rule rstrip_keep) (auto simp: not_slash_def)
  finally have b: "rstrip not_slash ?p = d @ ''/''" .
  have c: "rstrip is_slash (d @ ''/'') = d"
  proof -
    have "rstrip is_slash (d @ ''/'') = rstrip is_slash d"
      by (rule rstrip_append_all) (simp add: is_slash_def)
    also have "\<dots> = d" by (rule rstrip_keep) (use assms in \<open>auto simp: is_slash_def\<close>)
    finally show ?thesis .
  qed
  show ?thesis using a b c assms by (simp add: dirname_def Let_def)
qed

text \<open>The parent of a file in the root directory is the root directory.\<close>

lemma dirname_root_child:
  assumes "f \<noteq> []" "CHR ''/'' \<notin> set f"
  shows "dirname (CHR ''/'' # f) = ''/''"
proof -
  let ?p = "CHR ''/'' # f"
  have "last f \<in> set f" using assms by simp
  then have "last f \<noteq> CHR ''/''" using assms by metis
  then have lastp: "\<not> is_slash (last ?p)" using assms by (simp add: is_slash_def)
  have a: "rstrip is_slash ?p = ?p" by (rule rstrip_keep) (use lastp in auto)
  have "rstrip not_slash ?p = rstrip not_slash (''/'' @ f)" by simp
  also have "\<dots> = rstrip not_slash ''/''"
    by (rule rstrip_append_all) (use assms in \<open>auto simp: not_slash_def\<close>)
  also have "\<dots> = ''/''" by (rule rstrip_keep) (auto simp: not_slash_def)
  finally have b: "rstrip not_slash ?p = ''/''" .
  have c: "rstrip is_slash ''/'' = []"
    by (simp add: rstrip_def is_slash_def)
  show ?thesis using a b c by (simp add: dirname_def Let_def)
qed

text \<open>The parent of a file \<open>f\<close> in the directory \<open>d\<close>, the root being the empty \<open>d\<close>.\<close>

lemma dirname_child:
  assumes "d = [] \<or> last d \<noteq> CHR ''/''" "f \<noteq> []" "CHR ''/'' \<notin> set f"
  shows "dirname (d @ CHR ''/'' # f) = (if d = [] then ''/'' else d)"
  using assms dirname_sibling[of d f] dirname_root_child[of f] by auto

lemma snprintf_fits: "length s < n \<Longrightarrow> snprintf n s = s"
  by (simp add: snprintf_def)

section \<open>Facts about the example machines\<close>

lemma bundle_dirname: "dirname bundle_exe = ''/Apps/Foo.app/Contents/MacOS''"
  by (simp add: bundle_exe_def dirname_def rstrip_def is_slash_def not_slash_def)

lemma bundle_script_path:
  "snprintf 4096 (dirname bundle_exe @ ''/launcher.sh'') = bundle_script"
  by (simp add: bundle_dirname snprintf_def bundle_script_def)

lemma deep_dirname: "dirname deep_exe = deep_dir"
proof -
  have "dirname (deep_dir @ CHR ''/'' # ''Foo'') = deep_dir"
    by (rule dirname_sibling) (simp_all add: deep_dir_def)
  then show ?thesis by (simp add: deep_exe_def)
qed

lemma deep_dir_length: "length deep_dir = 4091"
  by (simp add: deep_dir_def deep_component_def length_concat sum_list_replicate)

lemma os_bundle_image: "NSGetExecutablePath os_bundle 4096 = Some bundle_exe"
  by (simp add: NSGetExecutablePath_def os_bundle_def machine_def bundle_exe_def)

lemma os_bundle_real: "realpath os_bundle bundle_exe = Some bundle_exe"
  by (simp add: realpath_def os_bundle_def machine_def resolve_bundle_def)

lemma os_bundle_exec: "execl os_bundle ''/bin/bash'' args = None"
  by (simp add: execl_def os_bundle_def machine_def)

lemma os_symlink_image: "NSGetExecutablePath os_symlink 4096 = Some bundle_link"
  by (simp add: NSGetExecutablePath_def os_symlink_def machine_def bundle_link_def)

lemma os_symlink_real: "realpath os_symlink bundle_link = Some bundle_exe"
  by (simp add: realpath_def os_symlink_def machine_def resolve_bundle_def)

lemma os_no_script_image: "NSGetExecutablePath os_no_script 4096 = Some bundle_exe"
  by (simp add: NSGetExecutablePath_def os_no_script_def machine_def bundle_exe_def)

lemma os_no_script_real: "realpath os_no_script bundle_exe = Some bundle_exe"
  by (simp add: realpath_def os_no_script_def machine_def resolve_bundle_def)

lemma os_no_script_exec: "execl os_no_script ''/bin/bash'' args = None"
  by (simp add: execl_def os_no_script_def machine_def)

lemma os_no_script_files: "bundle_script \<notin> files os_no_script"
  by (simp add: os_no_script_def machine_def bundle_script_def bundle_exe_def)

lemma os_no_bash_image: "NSGetExecutablePath os_no_bash 4096 = Some bundle_exe"
  by (simp add: NSGetExecutablePath_def os_no_bash_def machine_def bundle_exe_def)

lemma os_no_bash_real: "realpath os_no_bash bundle_exe = Some bundle_exe"
  by (simp add: realpath_def os_no_bash_def machine_def resolve_bundle_def)

lemma os_no_bash_exec: "execl os_no_bash ''/bin/bash'' args = Some ENOENT"
  by (simp add: execl_def os_no_bash_def machine_def bundle_script_def bundle_exe_def)

lemma os_unresolved_image: "NSGetExecutablePath os_unresolved 4096 = Some ''/Volumes/Gone/Foo''"
  by (simp add: NSGetExecutablePath_def os_unresolved_def machine_def)

lemma os_unresolved_real: "realpath os_unresolved p = None"
  by (simp add: realpath_def os_unresolved_def machine_def)

lemma os_long_image_none: "NSGetExecutablePath os_long_image 4096 = None"
  by (simp add: NSGetExecutablePath_def os_long_image_def machine_def long_image_def)

lemma os_deep_image: "NSGetExecutablePath os_deep 4096 = Some deep_exe"
  by (simp add: NSGetExecutablePath_def os_deep_def machine_def deep_exe_def deep_dir_length)

lemma os_deep_real: "realpath os_deep deep_exe = Some deep_exe"
  by (simp add: realpath_def os_deep_def machine_def)

lemma os_deep_exec: "execl os_deep ''/bin/bash'' args = None"
  by (simp add: execl_def os_deep_def machine_def)

lemma os_deep_valid: "valid_installation os_deep deep_exe"
  by (simp add: valid_installation_def deep_dirname) (simp add: os_deep_def machine_def)

lemma os_bundle_valid: "valid_installation os_bundle bundle_exe"
  by (simp add: valid_installation_def bundle_dirname)
     (simp add: os_bundle_def machine_def bundle_script_def)

section \<open>Installations and the script path\<close>

text \<open>
  C1, as stated, fails. The installation \<open>os_deep\<close> is valid: the executable is
  present and \<open>launcher.sh\<close> lies beside it; its path of 4095 bytes is reported
  within the buffer and resolves to itself, and \<open>/bin/bash\<close> can be executed. The
  parent directory has 4091 bytes, so the parent directory followed by
  \<open>/launcher.sh\<close> has 4103 and \<^verbatim>\<open>snprintf\<close> keeps the first 4095 of them: the
  shell is invoked, with the parent directory followed by \<open>/lau\<close>, and never with the
  parent directory followed by \<open>/launcher.sh\<close>.
\<close>

theorem truncated_script_counterexample:
  "valid_installation os_deep deep_exe \<and>
   NSGetExecutablePath os_deep 4096 = Some deep_exe \<and>
   realpath os_deep deep_exe = Some deep_exe \<and>
   dirname deep_exe = deep_dir \<and>
   ending os_deep 1 [''Foo''] = Replaced ''/bin/bash'' [''bash'', deep_dir @ ''/lau''] \<and>
   execl_calls (trace os_deep 1 [''Foo'']) = [(''/bin/bash'', [''bash'', deep_dir @ ''/lau''])] \<and>
   (''/bin/bash'', [''bash'', dirname deep_exe @ ''/launcher.sh''])
     \<notin> set (execl_calls (trace os_deep 1 [''Foo'']))"
proof -
  have cut: "snprintf 4096 (deep_dir @ ''/launcher.sh'') = deep_dir @ ''/lau''"
    by (simp add: snprintf_def deep_dir_length)
  show ?thesis
    using os_deep_valid os_deep_image os_deep_real
      main_replaced[OF os_deep_image os_deep_real os_deep_exec, of 1 "[''Foo'']"]
    by (simp add: deep_dirname trace_def ending_def cut)
qed

text \<open>
  C1, amended. For every valid installation whose executable path is reported within the
  buffer of 4096 bytes and resolves, and whose parent directory followed by
  \<open>/launcher.sh\<close> has at most 4095 bytes, the program asks for exactly one process
  replacement: the interpreter at \<open>/bin/bash\<close>, with the argument vector \<open>bash\<close> and
  one script argument, the parent directory of the resolved executable path followed by
  \<open>/launcher.sh\<close>; for a resolved path \<open>d/f\<close> that argument is \<open>d/launcher.sh\<close>.
  When the replacement succeeds the process image becomes that shell with that argument
  and the program has written nothing; when it fails the program exits with status 1.
\<close>

theorem valid_installation_invokes_shell:
  assumes "valid_installation os real"
    and "NSGetExecutablePath os 4096 = Some p" and "realpath os p = Some real"
    and "length (dirname real) + length ''/launcher.sh'' \<le> 4095"
  shows "execl_calls (trace os argc argv) =
           [(''/bin/bash'', [''bash'', dirname real @ ''/launcher.sh''])] \<and>
         (\<forall>d f. real = d @ CHR ''/'' # f \<longrightarrow> d \<noteq> [] \<longrightarrow> last d \<noteq> CHR ''/'' \<longrightarrow>
                f \<noteq> [] \<longrightarrow> CHR ''/'' \<notin> set f \<longrightarrow>
                execl_calls (trace os argc argv) =
                  [(''/bin/bash'', [''bash'', d @ ''/launcher.sh''])]) \<and>
         (case execl os ''/bin/bash'' [''bash'', dirname real @ ''/launcher.sh''] of
            None \<Rightarrow>
              ending os argc argv =
                Replaced ''/bin/bash'' [''bash'', dirname real @ ''/launcher.sh''] \<and>
              stderr_of os (trace os argc argv) = []
          | Some e \<Rightarrow> ending os argc argv = Returned 1)"
proof -
  have fits: "snprintf 4096 (dirname real @ ''/launcher.sh'') = dirname real @ ''/launcher.sh''"
    by (rule snprintf_fits) (use assms(4) in simp)
  from trace_resolved[OF assms(2,3), of argc argv]
  have calls: "execl_calls (trace os argc argv) =
                 [(''/bin/bash'', [''bash'', dirname real @ ''/launcher.sh''])]"
    by (auto simp: fits)
  have shape: "\<forall>d f. real = d @ CHR ''/'' # f \<longrightarrow> d \<noteq> [] \<longrightarrow> last d \<noteq> CHR ''/'' \<longrightarrow>
                f \<noteq> [] \<longrightarrow> CHR ''/'' \<notin> set f \<longrightarrow>
                execl_calls (trace os argc argv) =
                  [(''/bin/bash'', [''bash'', d @ ''/launcher.sh''])]"
    using calls by (auto simp: dirname_sibling)
  have "case execl os ''/bin/bash'' [''bash'', dirname real @ ''/launcher.sh''] of
            None \<Rightarrow>
              ending os argc argv =
                Replaced ''/bin/bash'' [''bash'', dirname real @ ''/launcher.sh''] \<and>
              stderr_of os (trace os argc argv) = []
          | Some e \<Rightarrow> ending os argc argv = Returned 1"
  proof (cases "execl os ''/bin/bash'' [''bash'', dirname real @ ''/launcher.sh'']")
    case None
    then have "execl os ''/bin/bash''
                 [''bash'', snprintf 4096 (dirname real @ ''/launcher.sh'')] = None"
      by (simp add: fits)
    from main_replaced[OF assms(2,3) this, of argc argv] None show ?thesis
      by (simp add: trace_def ending_def stderr_of_def fits)
  next
    case (Some e)
    then have "execl os ''/bin/bash''
                 [''bash'', snprintf 4096 (dirname real @ ''/launcher.sh'')] = Some e"
      by (simp add: fits)
    from main_exec_failed[OF assms(2,3) this, of argc argv] Some show ?thesis
      by (simp add: ending_def)
  qed
  with calls shape show ?thesis by blast
qed

text \<open>
  C1, witness: the bundle of the spec's scenario, \<open>/Apps/Foo.app/Contents/MacOS/Foo\<close>
  with \<open>launcher.sh\<close> beside it, on a host that has the shell.
\<close>

theorem valid_installation_invokes_shell_witness:
  "valid_installation os_bundle bundle_exe \<and>
   NSGetExecutablePath os_bundle 4096 = Some bundle_exe \<and>
   realpath os_bundle bundle_exe = Some bundle_exe \<and>
   length (dirname bundle_exe) + length ''/launcher.sh'' \<le> 4095 \<and>
   bundle_exe = ''/Apps/Foo.app/Contents/MacOS'' @ CHR ''/'' # ''Foo'' \<and>
   execl_calls (trace os_bundle 1 [''Foo'']) =
     [(''/bin/bash'', [''bash'', ''/Apps/Foo.app/Contents/MacOS/launcher.sh''])] \<and>
   ending os_bundle 1 [''Foo''] =
     Replaced ''/bin/bash'' [''bash'', ''/Apps/Foo.app/Contents/MacOS/launcher.sh'']"
proof -
  have len: "length (dirname bundle_exe) + length ''/launcher.sh'' \<le> 4095"
    by (simp add: bundle_dirname)
  have shape: "bundle_exe = ''/Apps/Foo.app/Contents/MacOS'' @ CHR ''/'' # ''Foo''"
    by (simp add: bundle_exe_def)
  from valid_installation_invokes_shell[OF os_bundle_valid os_bundle_image os_bundle_real len,
      of 1 "[''Foo'']"]
  show ?thesis
    using os_bundle_valid os_bundle_image os_bundle_real len shape
    by (simp add: bundle_dirname os_bundle_exec)
qed

text \<open>
  C3. When the path reported for the executable resolves to the file \<open>f\<close> in the
  directory \<open>d\<close> (the root directory when \<open>d\<close> is empty), the parent directory is
  taken of that resolved path, after normalisation, and is \<open>d\<close>; the only paths
  composed are it and the script path \<open>d/launcher.sh\<close>, cut to the buffer, and that
  script path is what the shell is handed. The directory of the path that was reported
  plays no part: two starts whose reported paths differ (one through a symbolic link,
  say) but resolve to the same file hand the same script path to the shell.
\<close>

theorem script_path_from_resolved_directory:
  assumes "NSGetExecutablePath os 4096 = Some p"
    and "realpath os p = Some (d @ CHR ''/'' # f)"
    and "d = [] \<or> last d \<noteq> CHR ''/''" and "f \<noteq> []" and "CHR ''/'' \<notin> set f"
    and "NSGetExecutablePath os' 4096 = Some p'"
    and "realpath os' p' = Some (d @ CHR ''/'' # f)"
  shows "filter is_composition (trace os argc argv) =
           [Call_dirname (d @ CHR ''/'' # f) (if d = [] then ''/'' else d),
            Call_snprintf 4096 ((if d = [] then ''/'' else d) @ ''/launcher.sh'')
              (snprintf 4096 ((if d = [] then ''/'' else d) @ ''/launcher.sh''))] \<and>
         execl_calls (trace os argc argv) =
           [(''/bin/bash'',
             [''bash'', snprintf 4096 ((if d = [] then ''/'' else d) @ ''/launcher.sh'')])] \<and>
         execl_calls (trace os' argc' argv') = execl_calls (trace os argc argv)"
proof -
  have dir: "dirname (d @ CHR ''/'' # f) = (if d = [] then ''/'' else d)"
    by (rule dirname_child) (use assms(3,4,5) in auto)
  from trace_resolved[OF assms(1,2), of argc argv]
  have 1: "filter is_composition (trace os argc argv) =
           [Call_dirname (d @ CHR ''/'' # f) (if d = [] then ''/'' else d),
            Call_snprintf 4096 ((if d = [] then ''/'' else d) @ ''/launcher.sh'')
              (snprintf 4096 ((if d = [] then ''/'' else d) @ ''/launcher.sh''))]"
    and 2: "execl_calls (trace os argc argv) =
           [(''/bin/bash'',
             [''bash'', snprintf 4096 ((if d = [] then ''/'' else d) @ ''/launcher.sh'')])]"
    unfolding dir by auto
  from trace_resolved[OF assms(6,7), of argc' argv']
  have 3: "execl_calls (trace os' argc' argv') =
           [(''/bin/bash'',
             [''bash'', snprintf 4096 ((if d = [] then ''/'' else d) @ ''/launcher.sh'')])]"
    unfolding dir by auto
  from 1 2 3 show ?thesis by simp
qed

text \<open>
  C3, witness: the bundle started through the link \<open>/usr/local/bin/foo\<close> hands the
  shell the script in the bundle's directory, not \<open>/usr/local/bin/launcher.sh\<close>, as
  the bundle started directly does.
\<close>

theorem script_path_from_resolved_directory_witness:
  "NSGetExecutablePath os_symlink 4096 = Some ''/usr/local/bin/foo'' \<and>
   realpath os_symlink ''/usr/local/bin/foo'' =
     Some (''/Apps/Foo.app/Contents/MacOS'' @ CHR ''/'' # ''Foo'') \<and>
   NSGetExecutablePath os_bundle 4096 = Some bundle_exe \<and>
   realpath os_bundle bundle_exe = Some (''/Apps/Foo.app/Contents/MacOS'' @ CHR ''/'' # ''Foo'') \<and>
   filter is_composition (trace os_symlink 1 [''foo'']) =
     [Call_dirname ''/Apps/Foo.app/Contents/MacOS/Foo'' ''/Apps/Foo.app/Contents/MacOS'',
      Call_snprintf 4096 ''/Apps/Foo.app/Contents/MacOS/launcher.sh''
        ''/Apps/Foo.app/Contents/MacOS/launcher.sh''] \<and>
   execl_calls (trace os_symlink 1 [''foo'']) =
     [(''/bin/bash'', [''bash'', ''/Apps/Foo.app/Contents/MacOS/launcher.sh''])] \<and>
   execl_calls (trace os_symlink 1 [''foo'']) \<noteq>
     [(''/bin/bash'', [''bash'', ''/usr/local/bin/launcher.sh''])] \<and>
   execl_calls (trace os_bundle 1 [''Foo'']) = execl_calls (trace os_symlink 1 [''foo''])"
proof -
  let ?d = "''/Apps/Foo.app/Contents/MacOS''" and ?f = "''Foo''"
  have i: "NSGetExecutablePath os_symlink 4096 = Some ''/usr/local/bin/foo''"
    using os_symlink_image by (simp add: bundle_link_def)
  have r: "realpath os_symlink ''/usr/local/bin/foo'' = Some (?d @ CHR ''/'' # ?f)"
    using os_symlink_real by (simp add: bundle_link_def bundle_exe_def)
  have r': "realpath os_bundle bundle_exe = Some (?d @ CHR ''/'' # ?f)"
    using os_bundle_real by (simp add: bundle_exe_def)
  have d: "?d = [] \<or> last ?d \<noteq> CHR ''/''" by simp
  have f: "?f \<noteq> []" "CHR ''/'' \<notin> set ?f" by simp_all
  from script_path_from_resolved_directory[OF i r d f os_bundle_image r',
      of 1 "[''foo'']" 1 "[''Foo'']"]
  show ?thesis using i r r' os_bundle_image
    by (simp add: snprintf_def)
qed

text \<open>
  C10. When the parent directory of the resolved executable followed by \<open>/launcher.sh\<close>
  has more than 4095 bytes, the script path is its prefix of 4095 bytes, which with the
  terminator fills the buffer of 4096; it differs from the untruncated path; no call
  fails and no diagnostic is written before the replacement call; and the shell is asked
  for with the truncated path.
\<close>

theorem long_directory_truncates:
  assumes "NSGetExecutablePath os 4096 = Some p" and "realpath os p = Some real"
    and "4095 < length (dirname real) + length ''/launcher.sh''"
  shows "execl_calls (trace os argc argv) =
           [(''/bin/bash'', [''bash'', take 4095 (dirname real @ ''/launcher.sh'')])] \<and>
         length (take 4095 (dirname real @ ''/launcher.sh'')) = 4095 \<and>
         take 4095 (dirname real @ ''/launcher.sh'') \<noteq> dirname real @ ''/launcher.sh'' \<and>
         diagnostics (before_execl (trace os argc argv)) = [] \<and>
         filter failed (before_execl (trace os argc argv)) = []"
proof -
  have s: "snprintf 4096 (dirname real @ ''/launcher.sh'') =
           take 4095 (dirname real @ ''/launcher.sh'')"
    by (simp add: snprintf_def)
  have l: "length (take 4095 (dirname real @ ''/launcher.sh'')) = 4095"
    using assms(3) by simp
  have n: "take 4095 (dirname real @ ''/launcher.sh'') \<noteq> dirname real @ ''/launcher.sh''"
    using assms(3) by (simp del: take_append)
  from trace_resolved[OF assms(1,2), of argc argv]
  have "execl_calls (trace os argc argv) =
           [(''/bin/bash'', [''bash'', snprintf 4096 (dirname real @ ''/launcher.sh'')])]"
    and "diagnostics (before_execl (trace os argc argv)) = []"
    and "filter failed (before_execl (trace os argc argv)) = []"
    by (auto simp: before_execl_def diagnostics_def)
  with s l n show ?thesis by simp
qed

text \<open>
  C10, witness: from the directory of 4091 bytes the shell is handed that directory
  followed by \<open>/lau\<close>.
\<close>

theorem long_directory_truncates_witness:
  "NSGetExecutablePath os_deep 4096 = Some deep_exe \<and>
   realpath os_deep deep_exe = Some deep_exe \<and>
   4095 < length (dirname deep_exe) + length ''/launcher.sh'' \<and>
   execl_calls (trace os_deep 1 [''Foo'']) = [(''/bin/bash'', [''bash'', deep_dir @ ''/lau''])] \<and>
   ending os_deep 1 [''Foo''] = Replaced ''/bin/bash'' [''bash'', deep_dir @ ''/lau'']"
proof -
  have l: "4095 < length (dirname deep_exe) + length ''/launcher.sh''"
    by (simp add: deep_dirname deep_dir_length)
  have t: "take 4095 (dirname deep_exe @ ''/launcher.sh'') = deep_dir @ ''/lau''"
    by (simp add: deep_dirname deep_dir_length)
  have e: "ending os_deep 1 [''Foo''] =
             Replaced ''/bin/bash'' [''bash'', snprintf 4096 (dirname deep_exe @ ''/launcher.sh'')]"
    using main_replaced[OF os_deep_image os_deep_real os_deep_exec, of 1 "[''Foo'']"]
    by (simp add: ending_def)
  from long_directory_truncates[OF os_deep_image os_deep_real l, of 1 "[''Foo'']"]
  show ?thesis using os_deep_image os_deep_real l e t by (simp add: snprintf_def)
qed

section \<open>A missing script\<close>

text \<open>
  C2, as stated, fails. On \<open>os_no_script\<close> the executable path resolves and no file
  exists at the computed script path, yet the run does not end with status 1 and the
  program writes nothing to standard error: \<open>/bin/bash\<close> exists, the replacement
  succeeds, and \<open>main\<close> never returns. The program never looks at the script file.
\<close>

theorem missing_script_counterexample:
  "NSGetExecutablePath os_no_script 4096 = Some bundle_exe \<and>
   realpath os_no_script bundle_exe = Some bundle_exe \<and>
   snprintf 4096 (dirname bundle_exe @ ''/launcher.sh'') \<notin> files os_no_script \<and>
   ending os_no_script 1 [''Foo''] \<noteq> Returned 1 \<and>
   stderr_of os_no_script (trace os_no_script 1 [''Foo'']) = []"
  using main_replaced[OF os_no_script_image os_no_script_real os_no_script_exec, of 1 "[''Foo'']"]
    os_no_script_image os_no_script_real os_no_script_files
  by (simp add: ending_def trace_def stderr_of_def bundle_script_path)

text \<open>
  C2, amended. When the executable path resolves and \<open>launcher.sh\<close> does not exist at
  the computed script path, the program still asks for the replacement by \<open>/bin/bash\<close>
  with that path as its script argument. If the replacement call fails, the program exits
  with status 1 and a non-empty diagnostic on standard error; if it succeeds, the process
  image is replaced, \<open>main\<close> does not return and the program itself has written
  nothing.
\<close>

theorem missing_script_outcome:
  assumes "NSGetExecutablePath os 4096 = Some p" and "realpath os p = Some real"
    and "snprintf 4096 (dirname real @ ''/launcher.sh'') \<notin> files os"
  shows "execl_calls (trace os argc argv) =
           [(''/bin/bash'', [''bash'', snprintf 4096 (dirname real @ ''/launcher.sh'')])] \<and>
         (case execl os ''/bin/bash'' [''bash'', snprintf 4096 (dirname real @ ''/launcher.sh'')] of
            None \<Rightarrow>
              ending os argc argv =
                Replaced ''/bin/bash'' [''bash'', snprintf 4096 (dirname real @ ''/launcher.sh'')] \<and>
              stderr_of os (trace os argc argv) = []
          | Some e \<Rightarrow>
              ending os argc argv = Returned 1 \<and>
              stderr_of os (trace os argc argv) \<noteq> [])"
proof (cases "execl os ''/bin/bash'' [''bash'', snprintf 4096 (dirname real @ ''/launcher.sh'')]")
  case None
  from main_replaced[OF assms(1,2) this, of argc argv] None show ?thesis
    by (simp add: trace_def ending_def stderr_of_def)
next
  case (Some e)
  from main_exec_failed[OF assms(1,2) this, of argc argv] Some show ?thesis
    by (simp add: trace_def ending_def stderr_of_def perror_text_def)
qed

text \<open>C2, witness: the bundle without \<open>launcher.sh\<close>, on a host that has the shell.\<close>

theorem missing_script_outcome_witness:
  "NSGetExecutablePath os_no_script 4096 = Some bundle_exe \<and>
   realpath os_no_script bundle_exe = Some bundle_exe \<and>
   bundle_script \<notin> files os_no_script \<and>
   execl_calls (trace os_no_script 1 [''Foo'']) = [(''/bin/bash'', [''bash'', bundle_script])] \<and>
   ending os_no_script 1 [''Foo''] = Replaced ''/bin/bash'' [''bash'', bundle_script] \<and>
   stderr_of os_no_script (trace os_no_script 1 [''Foo'']) = []"
proof -
  have nf: "snprintf 4096 (dirname bundle_exe @ ''/launcher.sh'') \<notin> files os_no_script"
    using os_no_script_files by (simp add: bundle_script_path)
  from missing_script_outcome[OF os_no_script_image os_no_script_real nf, of 1 "[''Foo'']"]
  show ?thesis
    using os_no_script_image os_no_script_real os_no_script_files
    by (simp add: bundle_script_path os_no_script_exec)
qed

section \<open>Failures and exit status\<close>

text \<open>
  C4. When self-location fails, because the platform query cannot report the executable
  path or because the reported path does not resolve, the run ends with status 1, a
  non-empty diagnostic is on standard error, that diagnostic is the only call after the
  failed one, and neither path composition nor process replacement is attempted.
\<close>

theorem self_location_failure_is_fatal:
  assumes "NSGetExecutablePath os 4096 = None \<or>
           (\<exists>p. NSGetExecutablePath os 4096 = Some p \<and> realpath os p = None)"
  shows "ending os argc argv = Returned 1 \<and>
         stderr_of os (trace os argc argv) \<noteq> [] \<and>
         (\<exists>d. after_failure (trace os argc argv) = [d] \<and> is_diagnostic d) \<and>
         filter is_composition (trace os argc argv) = [] \<and>
         execl_calls (trace os argc argv) = []"
  using assms
proof (elim disjE exE conjE)
  assume "NSGetExecutablePath os 4096 = None"
  from main_no_image_path[OF this, of argc argv] show ?thesis
    by (simp add: ending_def trace_def stderr_of_def after_failure_def)
next
  fix p assume "NSGetExecutablePath os 4096 = Some p" "realpath os p = None"
  from main_unresolved[OF this, of argc argv] show ?thesis
    by (simp add: ending_def trace_def stderr_of_def after_failure_def)
qed

text \<open>
  C4, witness: an executable path of 4096 bytes, which needs a buffer of 4097, and an
  executable path that does not resolve.
\<close>

theorem self_location_failure_is_fatal_witness:
  "NSGetExecutablePath os_long_image 4096 = None \<and>
   ending os_long_image 1 [''a''] = Returned 1 \<and>
   stderr_of os_long_image (trace os_long_image 1 [''a'']) \<noteq> [] \<and>
   execl_calls (trace os_long_image 1 [''a'']) = [] \<and>
   NSGetExecutablePath os_unresolved 4096 = Some ''/Volumes/Gone/Foo'' \<and>
   realpath os_unresolved ''/Volumes/Gone/Foo'' = None \<and>
   ending os_unresolved 1 [''Foo''] = Returned 1 \<and>
   stderr_of os_unresolved (trace os_unresolved 1 [''Foo'']) \<noteq> [] \<and>
   execl_calls (trace os_unresolved 1 [''Foo'']) = []"
proof -
  have a: "NSGetExecutablePath os_long_image 4096 = None \<or>
           (\<exists>p. NSGetExecutablePath os_long_image 4096 = Some p \<and> realpath os_long_image p = None)"
    using os_long_image_none by simp
  have b: "NSGetExecutablePath os_unresolved 4096 = None \<or>
           (\<exists>p. NSGetExecutablePath os_unresolved 4096 = Some p \<and> realpath os_unresolved p = None)"
    using os_unresolved_image os_unresolved_real by simp
  from self_location_failure_is_fatal[OF a, of 1 "[''a'']"]
       self_location_failure_is_fatal[OF b, of 1 "[''Foo'']"]
  show ?thesis using os_long_image_none os_unresolved_image os_unresolved_real by simp
qed

text \<open>
  C5. When the replacement call fails with error number \<open>e\<close>, control returns to the
  program: the one call after it is \<^verbatim>\<open>perror\<close>, standard error holds
  \<open>Failed to launch: \<close> followed by the system's text for \<open>e\<close> and a newline, and the
  run ends with status 1.
\<close>

theorem failed_replacement_reports_reason:
  assumes "NSGetExecutablePath os 4096 = Some p" and "realpath os p = Some real"
    and "execl os ''/bin/bash'' [''bash'', snprintf 4096 (dirname real @ ''/launcher.sh'')] = Some e"
  shows "ending os argc argv = Returned 1 \<and>
         stderr_of os (trace os argc argv) = ''Failed to launch: '' @ strerror os e @ newline \<and>
         sublist (strerror os e) (stderr_of os (trace os argc argv)) \<and>
         after_failure (trace os argc argv) = [Call_perror ''Failed to launch'' e]"
proof -
  have "sublist (strerror os e) (''Failed to launch: '' @ strerror os e @ newline)"
    by (rule sublist_appendI)
  with main_exec_failed[OF assms, of argc argv] show ?thesis
    by (simp add: ending_def trace_def stderr_of_def after_failure_def perror_text_def)
qed

text \<open>C5, witness: the bundle on a host without \<open>/bin/bash\<close>.\<close>

theorem failed_replacement_reports_reason_witness:
  "NSGetExecutablePath os_no_bash 4096 = Some bundle_exe \<and>
   realpath os_no_bash bundle_exe = Some bundle_exe \<and>
   execl os_no_bash ''/bin/bash'' [''bash'', bundle_script] = Some ENOENT \<and>
   ending os_no_bash 1 [''Foo''] = Returned 1 \<and>
   stderr_of os_no_bash (trace os_no_bash 1 [''Foo'']) =
     ''Failed to launch: No such file or directory'' @ newline"
proof -
  have x: "execl os_no_bash ''/bin/bash''
             [''bash'', snprintf 4096 (dirname bundle_exe @ ''/launcher.sh'')] = Some ENOENT"
    by (rule os_no_bash_exec)
  have s: "strerror os_no_bash ENOENT = ''No such file or directory''"
    by (simp add: os_no_bash_def machine_def)
  from failed_replacement_reports_reason[OF os_no_bash_image os_no_bash_real x, of 1 "[''Foo'']"]
  show ?thesis using os_no_bash_image os_no_bash_real os_no_bash_exec
    by (simp add: s)
qed

text \<open>
  C6. On every run in which \<open>main\<close> returns, the status is 1 and not 0, no replacement
  took place, and the last call before the return is a diagnostic that writes a non-empty
  text to standard error.
\<close>

theorem main_returns_only_one:
  assumes "ending os argc argv = Returned n"
  shows "n = 1 \<and> n \<noteq> 0 \<and> trace os argc argv \<noteq> [] \<and>
         filter replaces (trace os argc argv) = [] \<and>
         is_diagnostic (last (trace os argc argv)) \<and>
         written os (last (trace os argc argv)) \<noteq> []"
proof (cases os rule: main_cases)
  case no_image_path
  from main_no_image_path[OF this, of argc argv] assms show ?thesis
    by (simp add: ending_def trace_def)
next
  case (unresolved p)
  from main_unresolved[OF this, of argc argv] assms show ?thesis
    by (simp add: ending_def trace_def)
next
  case (replaced p real)
  from main_replaced[OF this, of argc argv] assms show ?thesis
    by (simp add: ending_def trace_def)
next
  case (exec_failed p real e)
  from main_exec_failed[OF this, of argc argv] assms show ?thesis
    by (simp add: ending_def trace_def perror_text_def)
qed

text \<open>C6, witness: the run on the executable path that does not resolve.\<close>

theorem main_returns_only_one_witness:
  "ending os_unresolved 1 [''Foo''] = Returned 1 \<and>
   is_diagnostic (last (trace os_unresolved 1 [''Foo''])) \<and>
   written os_unresolved (last (trace os_unresolved 1 [''Foo''])) \<noteq> []"
proof -
  have e: "ending os_unresolved 1 [''Foo''] = Returned 1"
    using main_unresolved[OF os_unresolved_image os_unresolved_real, of 1 "[''Foo'']"]
    by (simp add: ending_def)
  from main_returns_only_one[OF e] show ?thesis using e by simp
qed

text \<open>
  C7. No call follows a replacement that succeeded. Every run is of one of two kinds:
  the replacement is its last call, no call before it failed and nothing was written to
  standard error; or no replacement took place, the first failed call is followed by one
  diagnostic and nothing else, that diagnostic is all the run wrote, and the status is 1.
\<close>

theorem replacement_or_first_failure:
  "after_replacement (trace os argc argv) = [] \<and>
   ((\<exists>p a. ending os argc argv = Replaced p a \<and>
            last (trace os argc argv) = Call_execl p a None \<and>
            filter failed (trace os argc argv) = [] \<and>
            diagnostics (trace os argc argv) = []) \<or>
    (ending os argc argv = Returned 1 \<and>
     filter replaces (trace os argc argv) = [] \<and>
     (\<exists>d. after_failure (trace os argc argv) = [d] \<and>
          diagnostics (trace os argc argv) = [d])))"
proof (cases os rule: main_cases)
  case no_image_path
  from main_no_image_path[OF this, of argc argv] show ?thesis
    by (simp add: ending_def trace_def after_replacement_def after_failure_def diagnostics_def)
next
  case (unresolved p)
  from main_unresolved[OF this, of argc argv] show ?thesis
    by (simp add: ending_def trace_def after_replacement_def after_failure_def diagnostics_def)
next
  case (replaced p real)
  from main_replaced[OF this, of argc argv] show ?thesis
    by (simp add: ending_def trace_def after_replacement_def after_failure_def diagnostics_def)
next
  case (exec_failed p real e)
  from main_exec_failed[OF this, of argc argv] show ?thesis
    by (simp add: ending_def trace_def after_replacement_def after_failure_def diagnostics_def)
qed

text \<open>C7, witness: on the complete bundle the replacement is the last call of the run.\<close>

theorem replacement_or_first_failure_witness:
  "after_replacement (trace os_bundle 1 [''Foo'']) = [] \<and>
   ending os_bundle 1 [''Foo''] = Replaced ''/bin/bash'' [''bash'', bundle_script] \<and>
   last (trace os_bundle 1 [''Foo'']) = Call_execl ''/bin/bash'' [''bash'', bundle_script] None \<and>
   diagnostics (trace os_bundle 1 [''Foo'']) = []"
proof -
  have e: "ending os_bundle 1 [''Foo''] = Replaced ''/bin/bash'' [''bash'', bundle_script]"
    using main_replaced[OF os_bundle_image os_bundle_real os_bundle_exec, of 1 "[''Foo'']"]
    by (simp add: ending_def bundle_script_path)
  from replacement_or_first_failure[of os_bundle 1 "[''Foo'']"] show ?thesis
    using e by auto
qed

section \<open>The heap\<close>

text \<open>
  C9. On every run, what path normalisation allocated is released exactly once, after it
  was allocated, and before the replacement call is made or the program exits: the
  releases of the run are its allocations, all of them are made before the replacement
  call, replaying the run never releases what is not live, and the heap is empty both
  when the replacement is asked for and at the end. Normalisation allocates once when it
  succeeds; on the paths where self-location fails it has allocated nothing and nothing
  is released.
\<close>

theorem normalised_path_freed_once:
  "allocs (trace os argc argv) =
     (case NSGetExecutablePath os 4096 of
        None \<Rightarrow> []
      | Some p \<Rightarrow> (case realpath os p of None \<Rightarrow> [] | Some real \<Rightarrow> [real])) \<and>
   frees (trace os argc argv) = allocs (trace os argc argv) \<and>
   frees (before_execl (trace os argc argv)) = allocs (trace os argc argv) \<and>
   heap_after [] (before_execl (trace os argc argv)) = Some [] \<and>
   heap_after [] (trace os argc argv) = Some []"
proof (cases os rule: main_cases)
  case no_image_path
  from main_no_image_path[OF this, of argc argv] no_image_path show ?thesis
    by (simp add: trace_def before_execl_def)
next
  case (unresolved p)
  from main_unresolved[OF this, of argc argv] unresolved show ?thesis
    by (simp add: trace_def before_execl_def)
next
  case (replaced p real)
  from main_replaced[OF this, of argc argv] replaced show ?thesis
    by (simp add: trace_def before_execl_def)
next
  case (exec_failed p real e)
  from main_exec_failed[OF this, of argc argv] exec_failed show ?thesis
    by (simp add: trace_def before_execl_def)
qed

text \<open>
  C9, witness: the run whose replacement fails, and the run whose executable path does
  not resolve.
\<close>

theorem normalised_path_freed_once_witness:
  "allocs (trace os_no_bash 1 [''Foo'']) = [bundle_exe] \<and>
   frees (trace os_no_bash 1 [''Foo'']) = [bundle_exe] \<and>
   frees (before_execl (trace os_no_bash 1 [''Foo''])) = [bundle_exe] \<and>
   heap_after [] (trace os_no_bash 1 [''Foo'']) = Some [] \<and>
   allocs (trace os_unresolved 1 [''Foo'']) = [] \<and>
   frees (trace os_unresolved 1 [''Foo'']) = []"
  using normalised_path_freed_once[of os_no_bash 1 "[''Foo'']"]
    normalised_path_freed_once[of os_unresolved 1 "[''Foo'']"]
  by (simp add: os_no_bash_image os_no_bash_real os_unresolved_image os_unresolved_real)

section \<open>Command-line arguments\<close>


text \<open>
  C8. Two invocations that differ only in \<open>argc\<close> and \<open>argv\<close> make the same calls with
  the same arguments and end the same way: the composed script path, the arguments
  handed to the shell and the exit status do not depend on the command line.
\<close>

theorem main_ignores_arguments:
  "main os argc argv = main os argc' argv'"
  by (simp add: main_def)

end
